theory Spec2Isabelle
  imports Complex_Main
begin

section \<open>JavaScript numbers and strings\<close>

text \<open>
  A JavaScript number is modelled as an exact real number, or one of the three special
  values \<open>NaN\<close>, \<open>Infinity\<close> and \<open>-Infinity\<close>. The rounding error of IEEE doubles and
  the sign of zero are not modelled. The type is polymorphic so that the integral result
  of \<open>Math.round\<close> can be told apart from a general number.
\<close>

datatype 'a js = Num 'a | NaN | PosInf | NegInf

type_synonym jsnum = "real js"
type_synonym jsint = "int js"

definition inf_of_sign :: "real \<Rightarrow> jsnum" where
  "inf_of_sign s = (if 0 < s then PosInf else if s < 0 then NegInf else NaN)"

fun sgn_js :: "jsnum \<Rightarrow> real" where
  "sgn_js (Num x) = sgn x"
| "sgn_js PosInf = 1"
| "sgn_js NegInf = - 1"
| "sgn_js NaN = 0"

fun jadd :: "jsnum \<Rightarrow> jsnum \<Rightarrow> jsnum" where
  "jadd (Num x) (Num y) = Num (x + y)"
| "jadd NaN _ = NaN"
| "jadd _ NaN = NaN"
| "jadd PosInf NegInf = NaN"
| "jadd NegInf PosInf = NaN"
| "jadd PosInf _ = PosInf"
| "jadd _ PosInf = PosInf"
| "jadd NegInf _ = NegInf"
| "jadd _ NegInf = NegInf"

fun jneg :: "jsnum \<Rightarrow> jsnum" where
  "jneg (Num x) = Num (- x)"
| "jneg NaN = NaN"
| "jneg PosInf = NegInf"
| "jneg NegInf = PosInf"

definition jsub :: "jsnum \<Rightarrow> jsnum \<Rightarrow> jsnum" where
  "jsub x y = jadd x (jneg y)"

fun jmul :: "jsnum \<Rightarrow> jsnum \<Rightarrow> jsnum" where
  "jmul (Num x) (Num y) = Num (x * y)"
| "jmul NaN _ = NaN"
| "jmul _ NaN = NaN"
| "jmul PosInf y = inf_of_sign (sgn_js y)"
| "jmul NegInf y = inf_of_sign (- sgn_js y)"
| "jmul (Num x) y = inf_of_sign (sgn x * sgn_js y)"

fun jdiv :: "jsnum \<Rightarrow> jsnum \<Rightarrow> jsnum" where
  "jdiv (Num x) (Num y) = (if y \<noteq> 0 then Num (x / y) else inf_of_sign (sgn x))"
| "jdiv NaN _ = NaN"
| "jdiv _ NaN = NaN"
| "jdiv (Num x) _ = Num 0"
| "jdiv PosInf (Num y) = (if 0 \<le> y then PosInf else NegInf)"
| "jdiv NegInf (Num y) = (if 0 \<le> y then NegInf else PosInf)"
| "jdiv PosInf _ = NaN"
| "jdiv NegInf _ = NaN"

text \<open>The comparisons \<open><\<close> and \<open><=\<close>: false as soon as one side is \<open>NaN\<close>.\<close>

fun jlt :: "jsnum \<Rightarrow> jsnum \<Rightarrow> bool" where
  "jlt (Num x) (Num y) = (x < y)"
| "jlt NaN _ = False"
| "jlt _ NaN = False"
| "jlt NegInf NegInf = False"
| "jlt NegInf _ = True"
| "jlt PosInf _ = False"
| "jlt (Num x) PosInf = True"
| "jlt (Num x) NegInf = False"

fun jle :: "jsnum \<Rightarrow> jsnum \<Rightarrow> bool" where
  "jle (Num x) (Num y) = (x \<le> y)"
| "jle NaN _ = False"
| "jle _ NaN = False"
| "jle NegInf _ = True"
| "jle PosInf PosInf = True"
| "jle PosInf _ = False"
| "jle (Num x) PosInf = True"
| "jle (Num x) NegInf = False"


definition Math_max :: "jsnum \<Rightarrow> jsnum \<Rightarrow> jsnum" where
  "Math_max x y = (if x = NaN \<or> y = NaN then NaN else if jlt x y then y else x)"

definition Math_min :: "jsnum \<Rightarrow> jsnum \<Rightarrow> jsnum" where
  "Math_min x y = (if x = NaN \<or> y = NaN then NaN else if jlt y x then y else x)"

text \<open>\<open>Math.pow(x, 2.4)\<close>, the only exponent the program uses.\<close>

fun Math_pow_2_4 :: "jsnum \<Rightarrow> jsnum" where
  "Math_pow_2_4 (Num x) = (if x < 0 then NaN else Num (x powr 2.4))"
| "Math_pow_2_4 NaN = NaN"
| "Math_pow_2_4 PosInf = PosInf"
| "Math_pow_2_4 NegInf = PosInf"

fun Math_sqrt :: "jsnum \<Rightarrow> jsnum" where
  "Math_sqrt (Num x) = (if x < 0 then NaN else Num (sqrt x))"
| "Math_sqrt NaN = NaN"
| "Math_sqrt PosInf = PosInf"
| "Math_sqrt NegInf = NaN"

text \<open>\<open>Math.round\<close> rounds to the nearest integer, a tie towards \<open>+Infinity\<close>.\<close>

fun Math_round :: "jsnum \<Rightarrow> jsint" where
  "Math_round (Num x) = Num \<lfloor>x + 1 / 2\<rfloor>"
| "Math_round NaN = NaN"
| "Math_round PosInf = PosInf"
| "Math_round NegInf = NegInf"

text \<open>
  Strings are lists of 8-bit characters: the colour literals of the theme are ASCII.
  The white space that \<open>parseInt\<close> skips is the part of JavaScript's white space and line
  terminators that fits in 8 bits.
\<close>

definition is_whitespace :: "char \<Rightarrow> bool" where
  "is_whitespace c = ((of_char c :: nat) \<in> {9, 10, 11, 12, 13, 32, 160})"

definition hex_digit_value :: "char \<Rightarrow> nat option" where
  "hex_digit_value c =
     (let n = (of_char c :: nat) in
      if 48 \<le> n \<and> n \<le> 57 then Some (n - 48)
      else if 97 \<le> n \<and> n \<le> 102 then Some (n - 87)
      else if 65 \<le> n \<and> n \<le> 70 then Some (n - 55)
      else None)"

definition is_hex_digit :: "char \<Rightarrow> bool" where
  "is_hex_digit c = (hex_digit_value c \<noteq> None)"

definition digit_of :: "char \<Rightarrow> nat" where
  "digit_of c = (case hex_digit_value c of Some d \<Rightarrow> d | None \<Rightarrow> 0)"

definition hex_value :: "string \<Rightarrow> nat" where
  "hex_value z = foldl (\<lambda>acc c. 16 * acc + digit_of c) 0 z"

text \<open>
  \<open>parseInt(str, 16)\<close>: skip leading white space, read an optional sign, skip an
  optional \<open>0x\<close> or \<open>0X\<close>, and read the longest prefix of hexadecimal digits; \<open>NaN\<close>
  when that prefix is empty. Whatever follows the digits is ignored.
\<close>

definition parseInt16 :: "string \<Rightarrow> jsnum" where
  "parseInt16 str =
     (let s = dropWhile is_whitespace str;
          sign = (if s \<noteq> [] \<and> hd s = CHR ''-'' then - 1 else 1);
          s1 = (if s \<noteq> [] \<and> (hd s = CHR ''+'' \<or> hd s = CHR ''-'') then tl s else s);
          s2 = (if take 2 s1 = ''0x'' \<or> take 2 s1 = ''0X'' then drop 2 s1 else s1);
          z = takeWhile is_hex_digit s2
      in if z = [] then NaN else Num (sign * real (hex_value z)))"

text \<open>\<open>hex.substr(i, 2)\<close> and \<open>hex.replace(/^#/, '')\<close>.\<close>

definition substr2 :: "string \<Rightarrow> nat \<Rightarrow> string" where
  "substr2 hex i = take 2 (drop i hex)"

fun strip_hash :: "string \<Rightarrow> string" where
  "strip_hash [] = []"
| "strip_hash (c # cs) = (if c = CHR ''#'' then cs else c # cs)"

section \<open>Colours\<close>

text \<open>
  The object returned by \<open>hexToRgb\<close>, with the fields \<open>r\<close>, \<open>g\<close>, \<open>b\<close> and \<open>a\<close> of the
  source. The test suite's \<open>hexToRgb\<close> builds objects without the field \<open>a\<close>
  (\<open>None\<close> here).
\<close>

record rgb =
  rgb_r :: jsnum
  rgb_g :: jsnum
  rgb_b :: jsnum
  rgb_a :: "jsnum option"

text \<open>\<open>AccessibilityValidator.hexToRgb\<close>; \<open>None\<close> is the \<open>null\<close> of the source.\<close>

definition hexToRgb :: "string \<Rightarrow> rgb option" where
  "hexToRgb hex0 =
     (let hex = strip_hash hex0 in
      if length hex = 8 then
        Some \<lparr>rgb_r = parseInt16 (substr2 hex 0),
              rgb_g = parseInt16 (substr2 hex 2),
              rgb_b = parseInt16 (substr2 hex 4),
              rgb_a = Some (jdiv (parseInt16 (substr2 hex 6)) (Num 255))\<rparr>
      else if length hex = 6 then
        Some \<lparr>rgb_r = parseInt16 (substr2 hex 0),
              rgb_g = parseInt16 (substr2 hex 2),
              rgb_b = parseInt16 (substr2 hex 4),
              rgb_a = Some (Num 1)\<rparr>
      else if length hex = 3 then
        Some \<lparr>rgb_r = parseInt16 [hex ! 0, hex ! 0],
              rgb_g = parseInt16 [hex ! 1, hex ! 1],
              rgb_b = parseInt16 [hex ! 2, hex ! 2],
              rgb_a = Some (Num 1)\<rparr>
      else None)"

text \<open>
  The \<open>hexToRgb\<close> of the test suite matches
  \<open>/^#?([a-f\d]{2})([a-f\d]{2})([a-f\d]{2})$/i\<close>: an optional \<open>#\<close> and exactly six
  hexadecimal digits.
\<close>

definition hexToRgb_suite :: "string \<Rightarrow> rgb option" where
  "hexToRgb_suite hex0 =
     (let hex = strip_hash hex0 in
      if length hex = 6 \<and> list_all is_hex_digit hex then
        Some \<lparr>rgb_r = parseInt16 (substr2 hex 0),
              rgb_g = parseInt16 (substr2 hex 2),
              rgb_b = parseInt16 (substr2 hex 4),
              rgb_a = None\<rparr>
      else None)"

text \<open>A well-formed colour literal: an optional \<open>#\<close>, then 3, 6 or 8 hexadecimal digits.\<close>

definition hex_color :: "string \<Rightarrow> bool" where
  "hex_color s =
     (let h = strip_hash s in
      (length h = 3 \<or> length h = 6 \<or> length h = 8) \<and> list_all is_hex_digit h)"

text \<open>A channel in the range of a colour, and a colour with three such channels.\<close>

fun channel_ok :: "jsnum \<Rightarrow> bool" where
  "channel_ok (Num x) = (0 \<le> x \<and> x \<le> 255)"
| "channel_ok _ = False"

definition valid_rgb :: "rgb \<Rightarrow> bool" where
  "valid_rgb c = (channel_ok (rgb_r c) \<and> channel_ok (rgb_g c) \<and> channel_ok (rgb_b c))"

text \<open>
  The function mapped over the channels in \<open>getRelativeLuminance\<close>. The test suite
  has a \<open>getRelativeLuminance\<close> with the same body.
\<close>

definition linearize :: "jsnum \<Rightarrow> jsnum" where
  "linearize c0 =
     (let c = jdiv c0 (Num 255) in
      if jle c (Num 0.03928) then jdiv c (Num 12.92)
      else Math_pow_2_4 (jdiv (jadd c (Num 0.055)) (Num 1.055)))"

definition getRelativeLuminance :: "rgb \<Rightarrow> jsnum" where
  "getRelativeLuminance c =
     (let rs = linearize (rgb_r c); gs = linearize (rgb_g c); bs = linearize (rgb_b c) in
      jadd (jadd (jmul (Num 0.2126) rs) (jmul (Num 0.7152) gs)) (jmul (Num 0.0722) bs))"

definition contrast_of_luminances :: "jsnum \<Rightarrow> jsnum \<Rightarrow> jsnum" where
  "contrast_of_luminances lum1 lum2 =
     (let brightest = Math_max lum1 lum2; darkest = Math_min lum1 lum2 in
      jdiv (jadd brightest (Num 0.05)) (jadd darkest (Num 0.05)))"

text \<open>\<open>AccessibilityValidator.calculateContrastRatio\<close>.\<close>

definition calculateContrastRatio :: "string \<Rightarrow> string \<Rightarrow> jsnum" where
  "calculateContrastRatio color1 color2 =
     (case (hexToRgb color1, hexToRgb color2) of
        (Some rgb1, Some rgb2) \<Rightarrow>
          contrast_of_luminances (getRelativeLuminance rgb1) (getRelativeLuminance rgb2)
      | _ \<Rightarrow> Num 0)"

text \<open>\<open>getContrastRatio\<close> of the test suite: the same body over its own \<open>hexToRgb\<close>.\<close>

definition getContrastRatio :: "string \<Rightarrow> string \<Rightarrow> jsnum" where
  "getContrastRatio color1 color2 =
     (case (hexToRgb_suite color1, hexToRgb_suite color2) of
        (Some rgb1, Some rgb2) \<Rightarrow>
          contrast_of_luminances (getRelativeLuminance rgb1) (getRelativeLuminance rgb2)
      | _ \<Rightarrow> Num 0)"

section \<open>Contrast validation\<close>

text \<open>
  The table \<open>WCAG_STANDARDS\<close>. Reading a key that the table does not have gives
  \<open>undefined\<close> (\<open>None\<close> here) or an inherited property that is not a number.
\<close>

definition WCAG_STANDARDS_AA :: "string \<Rightarrow> jsnum option" where
  "WCAG_STANDARDS_AA = map_of
     [(''normalText'', Num 4.5), (''largeText'', Num 3.0),
      (''uiComponents'', Num 3.0), (''graphicalObjects'', Num 3.0)]"

definition WCAG_STANDARDS_AAA :: "string \<Rightarrow> jsnum option" where
  "WCAG_STANDARDS_AAA = map_of
     [(''normalText'', Num 7.0), (''largeText'', Num 4.5),
      (''uiComponents'', Num 4.5), (''graphicalObjects'', Num 4.5)]"

text \<open>
  \<open>ratio < required\<close> where \<open>required\<close> may be missing: a missing bound converts to
  \<open>NaN\<close>, and the comparison is false.
\<close>

definition jlt_required :: "jsnum \<Rightarrow> jsnum option \<Rightarrow> bool" where
  "jlt_required rat required = (case required of None \<Rightarrow> False | Some v \<Rightarrow> jlt rat v)"

record pair =
  pair_bg :: string
  pair_fg :: string
  pair_type :: string
  pair_critical :: bool

text \<open>
  The object \<open>result\<close> of \<open>validateContrastPair\<close>; its field \<open>type\<close> is the
  \<open>finding_type\<close> of the entry below.
\<close>

record contrast_result =
  background :: string
  foreground :: string
  backgroundValue :: string
  foregroundValue :: string
  ratio :: jsnum
  critical :: bool

text \<open>The fields that only the colour-blindness warnings carry.\<close>

record colorblind_result =
  originalColors :: "string \<times> string"
  simulatedColors :: "string \<times> string"
  reductionRatio :: jsnum

text \<open>
  An entry of the lists \<open>violations\<close>, \<open>warnings\<close> and \<open>passes\<close>. The message, a text
  for the console, is left out. In the contrast entries the spread \<open>...result\<close> comes
  after the field \<open>type\<close> and replaces it by \<open>pair.type\<close>.
\<close>

record finding =
  finding_type :: string
  severity :: "string option"
  contrast :: "contrast_result option"
  colorBlindnessType :: "string option"
  colorblind :: "colorblind_result option"

text \<open>
  The state of the validator. \<open>themeColors\<close> holds the properties of the colour object
  itself, all of them strings; a key that the object only inherits, such as \<open>toString\<close>,
  is outside this model.
\<close>

record validator =
  themeColors :: "string \<rightharpoonup> string"
  violations :: "finding list"
  warnings :: "finding list"
  passes :: "finding list"

text \<open>The three branches at the end of \<open>validateContrastPair\<close>.\<close>

datatype verdict = Violation | WarningAAA | Pass

definition contrast_verdict :: "jsnum \<Rightarrow> jsnum option \<Rightarrow> jsnum option \<Rightarrow> verdict" where
  "contrast_verdict rat requiredAA requiredAAA =
     (if jlt_required rat requiredAA then Violation
      else if jlt_required rat requiredAAA then WarningAAA
      else Pass)"

text \<open>
  The two levels as the three branches report them: a pair fails AA exactly when it is
  recorded as a violation, and reaches AAA exactly when it is recorded as a pass.
\<close>

definition meetsAA :: "verdict \<Rightarrow> bool" where
  "meetsAA v = (v \<noteq> Violation)"

definition meetsAAA :: "verdict \<Rightarrow> bool" where
  "meetsAAA v = (v = Pass)"

definition known_category :: "string \<Rightarrow> bool" where
  "known_category ty =
     (ty = ''normalText'' \<or> ty = ''largeText'' \<or> ty = ''uiComponents''
      \<or> ty = ''graphicalObjects'')"

definition missing_color :: finding where
  "missing_color =
     \<lparr>finding_type = ''missing-color'', severity = Some ''medium'',
      contrast = None, colorBlindnessType = None, colorblind = None\<rparr>"

definition validateContrastPair :: "validator \<Rightarrow> pair \<Rightarrow> validator" where
  "validateContrastPair s p =
     (case (themeColors s (pair_bg p), themeColors s (pair_fg p)) of
        (Some bgColor, Some fgColor) \<Rightarrow>
          if bgColor = [] \<or> fgColor = [] then s\<lparr>warnings := warnings s @ [missing_color]\<rparr>
          else
            let rat = calculateContrastRatio bgColor fgColor;
                requiredAA = WCAG_STANDARDS_AA (pair_type p);
                requiredAAA = WCAG_STANDARDS_AAA (pair_type p);
                result = \<lparr>background = pair_bg p, foreground = pair_fg p,
                          backgroundValue = bgColor, foregroundValue = fgColor,
                          ratio = rat, critical = pair_critical p\<rparr>
            in (case contrast_verdict rat requiredAA requiredAAA of
                  Violation \<Rightarrow>
                    s\<lparr>violations := violations s @
                       [\<lparr>finding_type = pair_type p,
                         severity = Some (if pair_critical p then ''high'' else ''medium''),
                         contrast = Some result, colorBlindnessType = None, colorblind = None\<rparr>]\<rparr>
                | WarningAAA \<Rightarrow>
                    s\<lparr>warnings := warnings s @
                       [\<lparr>finding_type = pair_type p, severity = Some ''low'',
                         contrast = Some result, colorBlindnessType = None, colorblind = None\<rparr>]\<rparr>
                | Pass \<Rightarrow>
                    s\<lparr>passes := passes s @
                       [\<lparr>finding_type = pair_type p, severity = None,
                         contrast = Some result, colorBlindnessType = None, colorblind = None\<rparr>]\<rparr>)
      | _ \<Rightarrow> s\<lparr>warnings := warnings s @ [missing_color]\<rparr>)"

text \<open>The colours \<open>loadThemeColors\<close> falls back to.\<close>

definition default_colors :: "string \<rightharpoonup> string" where
  "default_colors = map_of
     [(''editor.background'', ''#1a0d26''),
      (''editor.foreground'', ''#f4f1f4''),
      (''editor.selectionBackground'', ''#4a2c5a''),
      (''editor.lineHighlightBackground'', ''#2d1b3d''),
      (''editorCursor.foreground'', ''#ff6b35''),
      (''activityBar.background'', ''#1a0d26''),
      (''activityBar.foreground'', ''#8b7a9b''),
      (''activityBar.activeForeground'', ''#ff6b35''),
      (''sideBar.background'', ''#2d1b3d''),
      (''sideBar.foreground'', ''#f4f1f4''),
      (''statusBar.background'', ''#1a0d26''),
      (''statusBar.foreground'', ''#f4f1f4''),
      (''tab.activeBackground'', ''#2d1b3d''),
      (''tab.activeForeground'', ''#f4f1f4''),
      (''tab.inactiveBackground'', ''#1a0d26''),
      (''tab.inactiveForeground'', ''#8b7a9b''),
      (''terminal.background'', ''#1a0d26''),
      (''terminal.foreground'', ''#f4f1f4'')]"

section \<open>Colour blindness\<close>

definition COLOR_BLINDNESS_MATRICES :: "string \<Rightarrow> real list list option" where
  "COLOR_BLINDNESS_MATRICES = map_of
     [(''protanopia'',
        [[0.567, 0.433, 0.000], [0.558, 0.442, 0.000], [0.000, 0.242, 0.758]]),
      (''deuteranopia'',
        [[0.625, 0.375, 0.000], [0.700, 0.300, 0.000], [0.000, 0.300, 0.700]]),
      (''tritanopia'',
        [[0.950, 0.050, 0.000], [0.000, 0.433, 0.567], [0.000, 0.475, 0.525]])]"

datatype js_error = TypeError

text \<open>\<open>n.toString(16)\<close> for the integral result of \<open>Math.round\<close>, and \<open>padStart(2, '0')\<close>.\<close>

definition hex_char :: "nat \<Rightarrow> char" where
  "hex_char d = ''0123456789abcdef'' ! d"

fun hex_digits :: "nat \<Rightarrow> string" where
  "hex_digits n = (if n < 16 then [hex_char n] else hex_digits (n div 16) @ [hex_char (n mod 16)])"

fun toString16 :: "jsint \<Rightarrow> string" where
  "toString16 (Num i) = (if i < 0 then ''-'' else []) @ hex_digits (nat \<bar>i\<bar>)"
| "toString16 NaN = ''NaN''"
| "toString16 PosInf = ''Infinity''"
| "toString16 NegInf = ''-Infinity''"

definition padStart2 :: "string \<Rightarrow> string" where
  "padStart2 s = replicate (2 - length s) CHR ''0'' @ s"

text \<open>
  One row of the matrix applied to a colour, rounded. The program computes the sum of
  the three products in IEEE double arithmetic, and \<open>Math.round\<close> then rounds that
  double exactly. The double can differ from the exact sum by a rounding error, and the
  error decides the result where the exact sum is at a tie: \<open>45 * 0.7\<close> is
  \<open>31.499999999999996\<close> in doubles and rounds to 31, not to 32. The error of the sum, a
  function of the row and of the three channels, is the parameter \<open>dev\<close> of the model.
  For channels up to 255 it stays below \<open>1e-13\<close>, far below the bound of
  \<open>small_deviation\<close>.
\<close>

type_synonym deviation = "real list \<Rightarrow> jsnum \<times> jsnum \<times> jsnum \<Rightarrow> real"

definition small_deviation :: "deviation \<Rightarrow> bool" where
  "small_deviation dev = (\<forall>row v. \<bar>dev row v\<bar> \<le> 1 / 100)"

text \<open>The deviation of a sum that the doubles compute exactly, as they do for black.\<close>

definition no_deviation :: deviation where
  "no_deviation row v = 0"

definition apply_row :: "deviation \<Rightarrow> rgb \<Rightarrow> real list \<Rightarrow> jsint" where
  "apply_row dev c row =
     Math_round
       (jadd (jadd (jadd (jmul (rgb_r c) (Num (row ! 0))) (jmul (rgb_g c) (Num (row ! 1))))
                   (jmul (rgb_b c) (Num (row ! 2))))
             (Num (dev row (rgb_r c, rgb_g c, rgb_b c))))"

text \<open>
  \<open>simulateColorBlindness\<close>. The matrix of an unknown deficiency type is \<open>undefined\<close>,
  and reading its first row is a \<open>TypeError\<close>.
\<close>

definition simulateColorBlindness ::
  "deviation \<Rightarrow> string \<Rightarrow> real list list option \<Rightarrow> js_error + string" where
  "simulateColorBlindness dev hexColor matrix =
     (case hexToRgb hexColor of
        None \<Rightarrow> Inr hexColor
      | Some c \<Rightarrow>
          (case matrix of
             None \<Rightarrow> Inl TypeError
           | Some m \<Rightarrow>
               let newR = apply_row dev c (m ! 0);
                   newG = apply_row dev c (m ! 1);
                   newB = apply_row dev c (m ! 2)
               in Inr (''#'' @ padStart2 (toString16 newR) @ padStart2 (toString16 newG)
                         @ padStart2 (toString16 newB))))"

definition calculateColorDifference :: "string \<Rightarrow> string \<Rightarrow> jsnum" where
  "calculateColorDifference color1 color2 =
     (case (hexToRgb color1, hexToRgb color2) of
        (Some rgb1, Some rgb2) \<Rightarrow>
          let deltaR = jsub (rgb_r rgb1) (rgb_r rgb2);
              deltaG = jsub (rgb_g rgb1) (rgb_g rgb2);
              deltaB = jsub (rgb_b rgb1) (rgb_b rgb2)
          in Math_sqrt (jadd (jadd (jmul deltaR deltaR) (jmul deltaG deltaG)) (jmul deltaB deltaB))
      | _ \<Rightarrow> Num 0)"

text \<open>
  The body of the loop of \<open>validateColorBlindnessType\<close> up to \<open>reductionRatio\<close>: the
  two simulated colours and the quotient of the two distances.
\<close>

definition reduction_ratio ::
  "deviation \<Rightarrow> real list list option \<Rightarrow> string \<Rightarrow> string
     \<Rightarrow> js_error + (string \<times> string \<times> jsnum)" where
  "reduction_ratio dev matrix color1 color2 =
     (case simulateColorBlindness dev color1 matrix of
        Inl e \<Rightarrow> Inl e
      | Inr simulated1 \<Rightarrow>
          (case simulateColorBlindness dev color2 matrix of
             Inl e \<Rightarrow> Inl e
           | Inr simulated2 \<Rightarrow>
               let originalDiff = calculateColorDifference color1 color2;
                   simulatedDiff = calculateColorDifference simulated1 simulated2
               in Inr (simulated1, simulated2, jdiv simulatedDiff originalDiff)))"

fun validateColorBlindnessType ::
  "deviation \<Rightarrow> validator \<Rightarrow> string \<Rightarrow> (string \<times> string) list \<Rightarrow> js_error + validator" where
  "validateColorBlindnessType dev s ty [] = Inr s"
| "validateColorBlindnessType dev s ty ((color1, color2) # colorPairs) =
     (case reduction_ratio dev (COLOR_BLINDNESS_MATRICES ty) color1 color2 of
        Inl e \<Rightarrow> Inl e
      | Inr (simulated1, simulated2, red) \<Rightarrow>
          if jlt red (Num 0.3) then
            validateColorBlindnessType dev
              (s\<lparr>warnings := warnings s @
                 [\<lparr>finding_type = ''color-blindness'', severity = Some ''medium'',
                   contrast = None, colorBlindnessType = Some ty,
                   colorblind = Some \<lparr>originalColors = (color1, color2),
                     simulatedColors = (simulated1, simulated2),
                     reductionRatio = red\<rparr>\<rparr>]\<rparr>) ty colorPairs
          else
            validateColorBlindnessType dev
              (s\<lparr>passes := passes s @
                 [\<lparr>finding_type = ''color-blindness'', severity = None,
                   contrast = None, colorBlindnessType = Some ty,
                   colorblind = None\<rparr>]\<rparr>) ty colorPairs)"

text \<open>
  The linearisation of a normalised channel and the relative luminance as WCAG 2.1
  words them, over the real numbers.
\<close>

definition srgb_linear :: "real \<Rightarrow> real" where
  "srgb_linear s = (if s \<le> 0.03928 then s / 12.92 else ((s + 0.055) / 1.055) powr 2.4)"

definition wcag_luminance :: "real \<Rightarrow> real \<Rightarrow> real \<Rightarrow> real" where
  "wcag_luminance x y z =
     0.2126 * srgb_linear (x / 255) + 0.7152 * srgb_linear (y / 255)
       + 0.0722 * srgb_linear (z / 255)"

text \<open>
  The separation estimate in words: the three channels of a colour as real numbers, the
  matrix applied to them with each result, as the doubles have it, rounded to the
  nearest integer, the Euclidean distance of two triples, and the quotient of the
  distance after by the distance before.
\<close>

definition channels :: "rgb \<Rightarrow> (real \<times> real \<times> real) option" where
  "channels c =
     (case (rgb_r c, rgb_g c, rgb_b c) of
        (Num x, Num y, Num z) \<Rightarrow> Some (x, y, z)
      | _ \<Rightarrow> None)"

definition row_product :: "real list \<Rightarrow> real \<times> real \<times> real \<Rightarrow> real" where
  "row_product row v = (case v of (x, y, z) \<Rightarrow> x * row ! 0 + y * row ! 1 + z * row ! 2)"

definition round_half_up :: "real \<Rightarrow> real" where
  "round_half_up t = of_int \<lfloor>t + 1 / 2\<rfloor>"

definition simulate_channel :: "deviation \<Rightarrow> real list \<Rightarrow> real \<times> real \<times> real \<Rightarrow> real" where
  "simulate_channel dev row v =
     (case v of (x, y, z) \<Rightarrow> round_half_up (row_product row v + dev row (Num x, Num y, Num z)))"

definition simulate_rgb ::
  "deviation \<Rightarrow> real list list \<Rightarrow> real \<times> real \<times> real \<Rightarrow> real \<times> real \<times> real" where
  "simulate_rgb dev m v =
     (simulate_channel dev (m ! 0) v, simulate_channel dev (m ! 1) v,
      simulate_channel dev (m ! 2) v)"

text \<open>A triple whose components are within 51/100 of the matrix applied to \<open>v\<close>.\<close>

definition near_matrix ::
  "real list list \<Rightarrow> real \<times> real \<times> real \<Rightarrow> real \<times> real \<times> real \<Rightarrow> bool" where
  "near_matrix m v u =
     (case u of (a, b, c) \<Rightarrow>
        \<bar>a - row_product (m ! 0) v\<bar> \<le> 51 / 100 \<and> \<bar>b - row_product (m ! 1) v\<bar> \<le> 51 / 100
        \<and> \<bar>c - row_product (m ! 2) v\<bar> \<le> 51 / 100)"

definition rgb_distance :: "real \<times> real \<times> real \<Rightarrow> real \<times> real \<times> real \<Rightarrow> real" where
  "rgb_distance v w =
     (case (v, w) of ((x1, y1, z1), (x2, y2, z2)) \<Rightarrow>
        sqrt ((x1 - x2) * (x1 - x2) + (y1 - y2) * (y1 - y2) + (z1 - z2) * (z1 - z2)))"

definition separation ::
  "deviation \<Rightarrow> real list list \<Rightarrow> real \<times> real \<times> real \<Rightarrow> real \<times> real \<times> real \<Rightarrow> jsnum" where
  "separation dev m v w =
     jdiv (Num (rgb_distance (simulate_rgb dev m v) (simulate_rgb dev m w)))
          (Num (rgb_distance v w))"

text \<open>A row of non-negative weights that add up to 1, and a matrix of three such rows.\<close>

definition weights_row :: "real list \<Rightarrow> bool" where
  "weights_row row =
     (length row = 3 \<and> 0 \<le> row ! 0 \<and> 0 \<le> row ! 1 \<and> 0 \<le> row ! 2
      \<and> row ! 0 + row ! 1 + row ! 2 = 1)"

definition weights_matrix :: "real list list \<Rightarrow> bool" where
  "weights_matrix m =
     (length m = 3 \<and> weights_row (m ! 0) \<and> weights_row (m ! 1) \<and> weights_row (m ! 2))"

definition ratio_of :: "js_error + (string \<times> string \<times> jsnum) \<Rightarrow> jsnum option" where
  "ratio_of res = (case res of Inl e \<Rightarrow> None | Inr (s1, s2, red) \<Rightarrow> Some red)"

section \<open>Properties\<close>

subsection \<open>Hexadecimal digits\<close>

lemma hex_digit_not_special:
  assumes "is_hex_digit c"
  shows "\<not> is_whitespace c" "c \<noteq> CHR ''+''" "c \<noteq> CHR ''-''" "c \<noteq> CHR ''x''"
    "c \<noteq> CHR ''X''" "c \<noteq> CHR ''#''"
  using assms
  by (auto simp: is_hex_digit_def hex_digit_value_def is_whitespace_def Let_def split: if_splits)

lemma digit_of_less: "digit_of c < 16"
  by (auto simp: digit_of_def hex_digit_value_def Let_def split: option.splits if_splits)

lemma parseInt16_two_digits:
  assumes "is_hex_digit c1" "is_hex_digit c2"
  shows "parseInt16 [c1, c2] = Num (real (16 * digit_of c1 + digit_of c2))"
  using assms hex_digit_not_special[OF assms(1)] hex_digit_not_special[OF assms(2)]
  by (simp add: parseInt16_def hex_value_def)

lemma parseInt16_channel_ok:
  assumes "is_hex_digit c1" "is_hex_digit c2"
  shows "channel_ok (parseInt16 [c1, c2])"
proof -
  have "16 * digit_of c1 + digit_of c2 \<le> 255"
    using digit_of_less[of c1] digit_of_less[of c2] by arith
  then have "real (16 * digit_of c1 + digit_of c2) \<le> 255"
    by (metis of_nat_le_iff of_nat_numeral)
  then show ?thesis
    by (simp add: parseInt16_two_digits[OF assms] del: of_nat_add of_nat_mult)
qed

lemma length3E:
  assumes "length h = 3"
  obtains x y z where "h = [x, y, z]"
  using assms by (auto simp: length_Suc_conv eval_nat_numeral)

lemma length6E:
  assumes "length h = 6"
  obtains c1 c2 c3 c4 c5 c6 where "h = [c1, c2, c3, c4, c5, c6]"
  using assms by (auto simp: length_Suc_conv eval_nat_numeral)

lemma length8E:
  assumes "length h = 8"
  obtains c1 c2 c3 c4 c5 c6 c7 c8 where "h = [c1, c2, c3, c4, c5, c6, c7, c8]"
  using assms by (auto simp: length_Suc_conv eval_nat_numeral)

subsection \<open>Parsing colour literals\<close>

lemma hexToRgb_hex_color:
  assumes "hex_color s"
  shows "\<exists>c. hexToRgb s = Some c \<and> valid_rgb c"
proof -
  define h where "h = strip_hash s"
  have len: "length h = 3 \<or> length h = 6 \<or> length h = 8" and dig: "list_all is_hex_digit h"
    using assms by (simp_all add: hex_color_def h_def Let_def)
  from len show ?thesis
  proof (elim disjE)
    assume "length h = 3"
    then obtain x y z where "h = [x, y, z]" by (rule length3E)
    with dig show ?thesis
      by (simp add: hexToRgb_def h_def[symmetric] valid_rgb_def parseInt16_channel_ok)
  next
    assume "length h = 6"
    then obtain c1 c2 c3 c4 c5 c6 where "h = [c1, c2, c3, c4, c5, c6]" by (rule length6E)
    with dig show ?thesis
      by (simp add: hexToRgb_def h_def[symmetric] valid_rgb_def substr2_def
          parseInt16_channel_ok)
  next
    assume "length h = 8"
    then obtain c1 c2 c3 c4 c5 c6 c7 c8 where "h = [c1, c2, c3, c4, c5, c6, c7, c8]"
      by (rule length8E)
    with dig show ?thesis
      by (simp add: hexToRgb_def h_def[symmetric] valid_rgb_def substr2_def
          parseInt16_channel_ok)
  qed
qed

lemma hexToRgb_wrong_length:
  assumes "length (strip_hash s) \<noteq> 3" "length (strip_hash s) \<noteq> 6" "length (strip_hash s) \<noteq> 8"
  shows "hexToRgb s = None"
  using assms by (simp add: hexToRgb_def)

lemma hexToRgb_suite_malformed:
  assumes "length (strip_hash s) \<noteq> 6 \<or> \<not> list_all is_hex_digit (strip_hash s)"
  shows "hexToRgb_suite s = None"
  using assms by (auto simp: hexToRgb_suite_def)

text \<open>
  C4 (fails on the code). \<open>AccessibilityValidator.hexToRgb\<close> returns \<open>null\<close> only for
  a wrong length: it never looks at the characters. The literal \<open>#12345g\<close> has six
  characters after the \<open>#\<close>, the last of them not a hexadecimal digit, and yields a colour
  whose blue channel is the 5 that \<open>parseInt\<close> reads before the \<open>g\<close>; \<open>#gggggg\<close> yields a
  colour whose channels are \<open>NaN\<close>. The \<open>hexToRgb\<close> of the test suite rejects both, and
  both versions reject \<open>not-a-color\<close> and the empty string.
\<close>

theorem hexToRgb_accepts_non_hex:
  "hexToRgb ''#12345g'' =
     Some \<lparr>rgb_r = Num 18, rgb_g = Num 52, rgb_b = Num 5, rgb_a = Some (Num 1)\<rparr>
   \<and> hexToRgb ''#gggggg'' = Some \<lparr>rgb_r = NaN, rgb_g = NaN, rgb_b = NaN, rgb_a = Some (Num 1)\<rparr>
   \<and> \<not> hex_color ''#12345g'' \<and> \<not> hex_color ''#gggggg''
   \<and> hexToRgb_suite ''#12345g'' = None \<and> hexToRgb_suite ''#gggggg'' = None
   \<and> hexToRgb ''not-a-color'' = None \<and> hexToRgb [] = None
   \<and> hexToRgb_suite ''not-a-color'' = None \<and> hexToRgb_suite [] = None"
  by (simp add: hexToRgb_def hexToRgb_suite_def hex_color_def substr2_def parseInt16_def
      hex_value_def digit_of_def is_hex_digit_def hex_digit_value_def is_whitespace_def)

text \<open>The \<open>hexToRgb\<close> of the test suite knows the six-digit form only.\<close>

lemma hexToRgb_suite_short: "hexToRgb_suite ''#abc'' = None"
  by (simp add: hexToRgb_suite_def)

text \<open>
  C7. A literal of three hexadecimal digits \<open>x\<close>, \<open>y\<close>, \<open>z\<close>, with or without the
  leading \<open>#\<close>, parses to the same colour as the six digits \<open>xxyyzz\<close>, and it does
  parse to a colour.
\<close>

theorem hexToRgb_short_expansion:
  assumes "is_hex_digit x" "is_hex_digit y" "is_hex_digit z"
  shows "hexToRgb (CHR ''#'' # [x, y, z]) = hexToRgb (CHR ''#'' # [x, x, y, y, z, z])
    \<and> hexToRgb [x, y, z] = hexToRgb [x, x, y, y, z, z]
    \<and> hexToRgb [x, y, z] \<noteq> None"
  using hex_digit_not_special(6)[OF assms(1)]
  by (simp add: hexToRgb_def substr2_def)

theorem hexToRgb_short_expansion_witness:
  "is_hex_digit CHR ''a'' \<and> is_hex_digit CHR ''b'' \<and> is_hex_digit CHR ''c''
   \<and> hexToRgb ''#abc'' = hexToRgb ''#aabbcc'' \<and> hexToRgb ''abc'' = hexToRgb ''aabbcc''
   \<and> hexToRgb ''abc'' \<noteq> None"
proof -
  have h: "is_hex_digit CHR ''a''" "is_hex_digit CHR ''b''" "is_hex_digit CHR ''c''"
    by (simp_all add: is_hex_digit_def hex_digit_value_def)
  from hexToRgb_short_expansion[OF h] h show ?thesis by blast
qed

subsection \<open>Contrast ratio\<close>

lemma Math_max_commute: "Math_max x y = Math_max y x"
  by (cases x; cases y) (auto simp: Math_max_def)

lemma Math_min_commute: "Math_min x y = Math_min y x"
  by (cases x; cases y) (auto simp: Math_min_def)

lemma contrast_of_luminances_commute:
  "contrast_of_luminances l1 l2 = contrast_of_luminances l2 l1"
  unfolding contrast_of_luminances_def Math_max_commute[of l1 l2] Math_min_commute[of l1 l2]
  by (rule refl)

text \<open>
  C6. The contrast ratio does not depend on the order of its two arguments, for any two
  strings, in the validator and in the test suite.
\<close>

theorem calculateContrastRatio_symmetric:
  "calculateContrastRatio color1 color2 = calculateContrastRatio color2 color1
   \<and> getContrastRatio color1 color2 = getContrastRatio color2 color1"
  by (auto simp: calculateContrastRatio_def getContrastRatio_def split: option.splits
      intro: contrast_of_luminances_commute)

text \<open>
  C10. When one of the two strings does not parse (\<open>hexToRgb\<close> returns \<open>null\<close>), the
  contrast ratio is the number 0, which is below the least ratio 1; no error is raised.
  The same holds in the test suite.
\<close>

theorem calculateContrastRatio_unparsed:
  "(hexToRgb color1 = None \<or> hexToRgb color2 = None \<longrightarrow>
      calculateContrastRatio color1 color2 = Num 0
      \<and> \<not> jle (Num 1) (calculateContrastRatio color1 color2))
   \<and> (hexToRgb_suite color1 = None \<or> hexToRgb_suite color2 = None \<longrightarrow>
      getContrastRatio color1 color2 = Num 0
      \<and> \<not> jle (Num 1) (getContrastRatio color1 color2))"
  by (auto simp: calculateContrastRatio_def getContrastRatio_def split: option.splits)

theorem calculateContrastRatio_unparsed_witness:
  "hexToRgb ''not-a-color'' = None \<and> hexToRgb_suite ''not-a-color'' = None
   \<and> calculateContrastRatio ''not-a-color'' ''#ffffff'' = Num 0
   \<and> getContrastRatio ''not-a-color'' ''#ffffff'' = Num 0"
proof -
  have h: "hexToRgb ''not-a-color'' = None" "hexToRgb_suite ''not-a-color'' = None"
    by (simp_all add: hexToRgb_def hexToRgb_suite_def)
  from calculateContrastRatio_unparsed[of "''not-a-color''" "''#ffffff''"] h
  show ?thesis by blast
qed

subsection \<open>Relative luminance\<close>

lemma linearize_Num: "linearize (Num x) = Num (srgb_linear (x / 255))"
proof (cases "x / 255 \<le> 0.03928")
  case True
  then show ?thesis by (simp add: linearize_def srgb_linear_def)
next
  case False
  then have "0 < x / 255 + 0.055" by simp
  then have "\<not> (x / 255 + 0.055) / 1.055 < 0" by (simp add: not_less)
  with False show ?thesis by (simp add: linearize_def srgb_linear_def)
qed

lemma getRelativeLuminance_Num:
  assumes "rgb_r c = Num x" "rgb_g c = Num y" "rgb_b c = Num z"
  shows "getRelativeLuminance c = Num (wcag_luminance x y z)"
  by (simp add: getRelativeLuminance_def assms linearize_Num wcag_luminance_def)

lemma srgb_linear_bounds:
  assumes "0 \<le> s" "s \<le> 1"
  shows "0 \<le> srgb_linear s" "srgb_linear s \<le> 1"
proof -
  show "0 \<le> srgb_linear s"
    using assms by (simp add: srgb_linear_def)
  show "srgb_linear s \<le> 1"
  proof (cases "s \<le> 0.03928")
    case True
    then show ?thesis using assms by (simp add: srgb_linear_def)
  next
    case False
    have "0 \<le> (s + 0.055) / 1.055" "(s + 0.055) / 1.055 \<le> 1"
      using assms by simp_all
    then have "((s + 0.055) / 1.055) powr 2.4 \<le> 1 powr 2.4"
      by (intro powr_mono2) simp_all
    with False show ?thesis by (simp add: srgb_linear_def)
  qed
qed

lemma wcag_luminance_bounds:
  assumes "0 \<le> x" "x \<le> 255" "0 \<le> y" "y \<le> 255" "0 \<le> z" "z \<le> 255"
  shows "0 \<le> wcag_luminance x y z" "wcag_luminance x y z \<le> 1"
proof -
  have b: "0 \<le> srgb_linear (x / 255)" "srgb_linear (x / 255) \<le> 1"
    "0 \<le> srgb_linear (y / 255)" "srgb_linear (y / 255) \<le> 1"
    "0 \<le> srgb_linear (z / 255)" "srgb_linear (z / 255) \<le> 1"
    using assms by (simp_all add: srgb_linear_bounds)
  from b show "0 \<le> wcag_luminance x y z"
    by (simp add: wcag_luminance_def)
  have "0.2126 * srgb_linear (x / 255) + 0.7152 * srgb_linear (y / 255)
          + 0.0722 * srgb_linear (z / 255) \<le> 0.2126 * 1 + 0.7152 * 1 + 0.0722 * (1::real)"
    by (intro add_mono mult_left_mono) (use b in simp_all)
  then show "wcag_luminance x y z \<le> 1"
    by (simp add: wcag_luminance_def)
qed

lemma valid_rgb_luminance:
  assumes "valid_rgb c"
  shows "\<exists>l. getRelativeLuminance c = Num l \<and> 0 \<le> l \<and> l \<le> 1"
proof -
  from assms obtain x y z where c: "rgb_r c = Num x" "rgb_g c = Num y" "rgb_b c = Num z"
    and r: "0 \<le> x" "x \<le> 255" "0 \<le> y" "y \<le> 255" "0 \<le> z" "z \<le> 255"
    unfolding valid_rgb_def
    by (cases "rgb_r c"; cases "rgb_g c"; cases "rgb_b c") simp_all
  show ?thesis
    using getRelativeLuminance_Num[OF c] wcag_luminance_bounds[OF r] by blast
qed

lemma srgb_linear_one: "srgb_linear 1 = 1"
  by (simp add: srgb_linear_def)

lemma srgb_linear_zero: "srgb_linear 0 = 0"
  by (simp add: srgb_linear_def)

lemma hexToRgb_white:
  "hexToRgb ''#FFFFFF'' =
     Some \<lparr>rgb_r = Num 255, rgb_g = Num 255, rgb_b = Num 255, rgb_a = Some (Num 1)\<rparr>"
  by (simp add: hexToRgb_def substr2_def parseInt16_def hex_value_def digit_of_def
      is_hex_digit_def hex_digit_value_def is_whitespace_def)

lemma hexToRgb_black:
  "hexToRgb ''#000000'' =
     Some \<lparr>rgb_r = Num 0, rgb_g = Num 0, rgb_b = Num 0, rgb_a = Some (Num 1)\<rparr>"
  by (simp add: hexToRgb_def substr2_def parseInt16_def hex_value_def digit_of_def
      is_hex_digit_def hex_digit_value_def is_whitespace_def)

lemma luminance_white:
  "getRelativeLuminance
     \<lparr>rgb_r = Num 255, rgb_g = Num 255, rgb_b = Num 255, rgb_a = Some (Num 1)\<rparr> = Num 1"
  by (simp add: getRelativeLuminance_Num[of _ 255 255 255] wcag_luminance_def srgb_linear_one)

lemma luminance_black:
  "getRelativeLuminance
     \<lparr>rgb_r = Num 0, rgb_g = Num 0, rgb_b = Num 0, rgb_a = Some (Num 1)\<rparr> = Num 0"
  by (simp add: getRelativeLuminance_Num[of _ 0 0 0] wcag_luminance_def srgb_linear_zero)

text \<open>
  C1. For a colour whose channels are the numbers \<open>x\<close>, \<open>y\<close>, \<open>z\<close>, the relative
  luminance is \<open>0.2126 R + 0.7152 G + 0.0722 B\<close>, each term the linearisation
  \<open>srgb_linear\<close> of the channel divided by 255 (\<open>s / 12.92\<close> up to 0.03928,
  \<open>((s + 0.055) / 1.055)\<close> to the power 2.4 above). White has luminance 1 and black has
  luminance 0.
\<close>

theorem getRelativeLuminance_wcag:
  assumes "rgb_r c = Num x" "rgb_g c = Num y" "rgb_b c = Num z"
  shows "getRelativeLuminance c =
      Num (0.2126 * srgb_linear (x / 255) + 0.7152 * srgb_linear (y / 255)
           + 0.0722 * srgb_linear (z / 255))
    \<and> (\<exists>w. hexToRgb ''#FFFFFF'' = Some w \<and> getRelativeLuminance w = Num 1)
    \<and> (\<exists>k. hexToRgb ''#000000'' = Some k \<and> getRelativeLuminance k = Num 0)"
  using getRelativeLuminance_Num[OF assms] hexToRgb_white hexToRgb_black
    luminance_white luminance_black
  by (simp add: wcag_luminance_def)

theorem getRelativeLuminance_wcag_witness:
  "getRelativeLuminance
     \<lparr>rgb_r = Num 255, rgb_g = Num 0, rgb_b = Num 0, rgb_a = Some (Num 1)\<rparr> = Num 0.2126"
  using getRelativeLuminance_wcag[of
      "\<lparr>rgb_r = Num 255, rgb_g = Num 0, rgb_b = Num 0, rgb_a = Some (Num 1)\<rparr>" 255 0 0]
  by (simp add: srgb_linear_one srgb_linear_zero)

subsection \<open>Range of the contrast ratio\<close>

lemma contrast_of_luminances_Num:
  assumes "0 \<le> l1" "0 \<le> l2"
  shows "contrast_of_luminances (Num l1) (Num l2) =
           Num ((max l1 l2 + 0.05) / (min l1 l2 + 0.05))"
proof -
  have "min l1 l2 + 0.05 \<noteq> 0" using assms by (simp add: min_def)
  then show ?thesis
    using assms by (auto simp: contrast_of_luminances_def Math_max_def Math_min_def
        max_def min_def)
qed

lemma contrast_bounds:
  fixes l1 l2 :: real
  assumes "0 \<le> l1" "l1 \<le> 1" "0 \<le> l2" "l2 \<le> 1"
  shows "1 \<le> (max l1 l2 + 0.05) / (min l1 l2 + 0.05)"
    "(max l1 l2 + 0.05) / (min l1 l2 + 0.05) \<le> 21"
proof -
  have pos: "0 < min l1 l2 + 0.05" using assms by (simp add: min_def)
  have "min l1 l2 + 0.05 \<le> max l1 l2 + 0.05" by simp
  with pos show "1 \<le> (max l1 l2 + 0.05) / (min l1 l2 + 0.05)"
    by (simp add: le_divide_eq)
  have "max l1 l2 + 0.05 \<le> 21 * (min l1 l2 + 0.05)"
    using assms by (simp add: max_def min_def)
  with pos show "(max l1 l2 + 0.05) / (min l1 l2 + 0.05) \<le> 21"
    by (simp add: divide_le_eq)
qed

lemma contrast_black_white: "calculateContrastRatio ''#000000'' ''#FFFFFF'' = Num 21"
  by (simp add: calculateContrastRatio_def hexToRgb_white hexToRgb_black luminance_white
      luminance_black contrast_of_luminances_Num)

text \<open>
  C2. For two well-formed colour literals the contrast ratio is a number between 1 and
  21; it is 1 when the two colours have the same relative luminance, and it is 21 for
  black against white.
\<close>

theorem calculateContrastRatio_range:
  assumes "hex_color color1" "hex_color color2"
  shows "(\<exists>x. calculateContrastRatio color1 color2 = Num x \<and> 1 \<le> x \<and> x \<le> 21)
    \<and> (\<forall>c1 c2. hexToRgb color1 = Some c1 \<and> hexToRgb color2 = Some c2
          \<and> getRelativeLuminance c1 = getRelativeLuminance c2
        \<longrightarrow> calculateContrastRatio color1 color2 = Num 1)
    \<and> calculateContrastRatio ''#000000'' ''#FFFFFF'' = Num 21"
proof -
  obtain c1 c2 where c: "hexToRgb color1 = Some c1" "hexToRgb color2 = Some c2"
    and v: "valid_rgb c1" "valid_rgb c2"
    using hexToRgb_hex_color[OF assms(1)] hexToRgb_hex_color[OF assms(2)] by blast
  obtain l1 l2 where l: "getRelativeLuminance c1 = Num l1" "getRelativeLuminance c2 = Num l2"
    and b: "0 \<le> l1" "l1 \<le> 1" "0 \<le> l2" "l2 \<le> 1"
    using valid_rgb_luminance[OF v(1)] valid_rgb_luminance[OF v(2)] by blast
  have eq: "calculateContrastRatio color1 color2 =
      Num ((max l1 l2 + 0.05) / (min l1 l2 + 0.05))"
    by (simp add: calculateContrastRatio_def c l contrast_of_luminances_Num[OF b(1) b(3)])
  have range: "\<exists>x. calculateContrastRatio color1 color2 = Num x \<and> 1 \<le> x \<and> x \<le> 21"
    using eq contrast_bounds[OF b] by blast
  have same: "calculateContrastRatio color1 color2 = Num 1" if "l1 = l2"
  proof -
    have "l2 + 0.05 \<noteq> 0" using b by simp
    with that show ?thesis by (simp add: eq)
  qed
  show ?thesis
    using range same c l contrast_black_white by auto
qed

theorem calculateContrastRatio_range_witness:
  "hex_color ''#abc'' \<and> hex_color ''#aabbcc''
   \<and> calculateContrastRatio ''#abc'' ''#aabbcc'' = Num 1"
proof -
  have h: "hex_color ''#abc''" "hex_color ''#aabbcc''"
    by (simp_all add: hex_color_def is_hex_digit_def hex_digit_value_def)
  have p: "hexToRgb ''#abc'' = hexToRgb ''#aabbcc''" "hexToRgb ''#abc'' \<noteq> None"
    by (simp_all add: hexToRgb_def substr2_def)
  then obtain c where "hexToRgb ''#abc'' = Some c" "hexToRgb ''#aabbcc'' = Some c"
    by fastforce
  with calculateContrastRatio_range[OF h] h show ?thesis by blast
qed

subsection \<open>Classification against the thresholds\<close>


text \<open>A ratio that is \<open>NaN\<close> is below no threshold and falls through to the pass.\<close>

lemma contrast_verdict_NaN: "contrast_verdict NaN requiredAA requiredAAA = Pass"
  by (simp add: contrast_verdict_def jlt_required_def split: option.splits)

lemma WCAG_STANDARDS_table:
  "WCAG_STANDARDS_AA ''normalText'' = Some (Num 4.5)"
  "WCAG_STANDARDS_AAA ''normalText'' = Some (Num 7)"
  "WCAG_STANDARDS_AA ''largeText'' = Some (Num 3)"
  "WCAG_STANDARDS_AAA ''largeText'' = Some (Num 4.5)"
  "WCAG_STANDARDS_AA ''uiComponents'' = Some (Num 3)"
  "WCAG_STANDARDS_AAA ''uiComponents'' = Some (Num 4.5)"
  "WCAG_STANDARDS_AA ''graphicalObjects'' = Some (Num 3)"
  "WCAG_STANDARDS_AAA ''graphicalObjects'' = Some (Num 4.5)"
  by (simp_all add: WCAG_STANDARDS_AA_def WCAG_STANDARDS_AAA_def)




subsection \<open>Unknown categories\<close>

lemma unknown_category_thresholds:
  assumes "\<not> known_category ty"
  shows "WCAG_STANDARDS_AA ty = None" "WCAG_STANDARDS_AAA ty = None"
  using assms
  by (simp_all add: known_category_def WCAG_STANDARDS_AA_def WCAG_STANDARDS_AAA_def)

text \<open>
  C9 (fails on the code). With the fallback colours, a pair of the category
  \<open>headline\<close>, which the table does not have, whose background and foreground are the
  same colour is recorded as a pass: nothing reports the unknown category.
\<close>

theorem unknown_category_counterexample:
  "\<not> known_category ''headline''
   \<and> validateContrastPair
       \<lparr>themeColors = default_colors, violations = [], warnings = [], passes = []\<rparr>
       \<lparr>pair_bg = ''editor.background'', pair_fg = ''terminal.background'',
        pair_type = ''headline'', pair_critical = True\<rparr>
     = \<lparr>themeColors = default_colors, violations = [], warnings = [],
        passes = [\<lparr>finding_type = ''headline'', severity = None,
          contrast = Some \<lparr>background = ''editor.background'',
            foreground = ''terminal.background'', backgroundValue = ''#1a0d26'',
            foregroundValue = ''#1a0d26'',
            ratio = calculateContrastRatio ''#1a0d26'' ''#1a0d26'', critical = True\<rparr>,
          colorBlindnessType = None, colorblind = None\<rparr>]\<rparr>"
  by (simp add: known_category_def validateContrastPair_def default_colors_def
      WCAG_STANDARDS_AA_def WCAG_STANDARDS_AAA_def contrast_verdict_def jlt_required_def)

text \<open>
  C9 as amended. When the category of the pair is not one of the four of the table and
  both colours are defined, \<open>validateContrastPair\<close> raises nothing and substitutes no
  category: both thresholds are missing, no comparison holds, and the pair is added to
  the passes whatever its ratio; violations and warnings are unchanged.
\<close>

theorem validateContrastPair_unknown_category:
  assumes "\<not> known_category (pair_type p)"
    and "themeColors s (pair_bg p) = Some bgColor" "themeColors s (pair_fg p) = Some fgColor"
    and "bgColor \<noteq> []" "fgColor \<noteq> []"
  shows "validateContrastPair s p =
    s\<lparr>passes := passes s @
      [\<lparr>finding_type = pair_type p, severity = None,
        contrast = Some \<lparr>background = pair_bg p, foreground = pair_fg p,
          backgroundValue = bgColor, foregroundValue = fgColor,
          ratio = calculateContrastRatio bgColor fgColor, critical = pair_critical p\<rparr>,
        colorBlindnessType = None, colorblind = None\<rparr>]\<rparr>"
  using assms(2-5) unknown_category_thresholds[OF assms(1)]
  by (simp add: validateContrastPair_def contrast_verdict_def jlt_required_def)

theorem validateContrastPair_unknown_category_witness:
  "\<not> known_category ''caption''
   \<and> default_colors ''sideBar.background'' = Some ''#2d1b3d''
   \<and> default_colors ''sideBar.foreground'' = Some ''#f4f1f4''
   \<and> violations (validateContrastPair
       \<lparr>themeColors = default_colors, violations = [], warnings = [], passes = []\<rparr>
       \<lparr>pair_bg = ''sideBar.background'', pair_fg = ''sideBar.foreground'',
        pair_type = ''caption'', pair_critical = False\<rparr>) = []
   \<and> length (passes (validateContrastPair
       \<lparr>themeColors = default_colors, violations = [], warnings = [], passes = []\<rparr>
       \<lparr>pair_bg = ''sideBar.background'', pair_fg = ''sideBar.foreground'',
        pair_type = ''caption'', pair_critical = False\<rparr>)) = 1"
proof -
  have k: "\<not> known_category ''caption''" by (simp add: known_category_def)
  have c: "default_colors ''sideBar.background'' = Some ''#2d1b3d''"
    "default_colors ''sideBar.foreground'' = Some ''#f4f1f4''"
    by (simp_all add: default_colors_def)
  show ?thesis
    using k c validateContrastPair_unknown_category[of
        "\<lparr>pair_bg = ''sideBar.background'', pair_fg = ''sideBar.foreground'',
          pair_type = ''caption'', pair_critical = False\<rparr>"
        "\<lparr>themeColors = default_colors, violations = [], warnings = [], passes = []\<rparr>"
        "''#2d1b3d''" "''#f4f1f4''"]
    by simp
qed

subsection \<open>The editor colours of the theme\<close>

lemma powr_2_4_bounds:
  fixes x lo hi :: real
  assumes "0 < x" "0 < lo" "0 < hi" "lo ^ 5 \<le> x ^ 12" "x ^ 12 \<le> hi ^ 5"
  shows "lo \<le> x powr 2.4" "x powr 2.4 \<le> hi"
proof -
  have root: "(y ^ 5) powr (1 / 5) = y" if "0 < y" for y :: real
  proof -
    have "(y ^ 5) powr (1 / 5) = (y powr 5) powr (1 / 5)"
      using that by simp
    also have "\<dots> = y powr (5 * (1 / 5))" by (rule powr_powr)
    also have "\<dots> = y" using that by simp
    finally show ?thesis .
  qed
  have "(x ^ 12) powr (1 / 5) = (x powr 12) powr (1 / 5)"
    using assms(1) by simp
  also have "\<dots> = x powr (12 * (1 / 5))" by (rule powr_powr)
  also have "12 * (1 / 5) = (2.4 :: real)" by simp
  finally have e: "(x ^ 12) powr (1 / 5) = x powr 2.4" .
  have "(lo ^ 5) powr (1 / 5) \<le> (x ^ 12) powr (1 / 5)"
    using assms by (intro powr_mono2) simp_all
  then show "lo \<le> x powr 2.4" by (simp only: root[OF assms(2)] e)
  have "(x ^ 12) powr (1 / 5) \<le> (hi ^ 5) powr (1 / 5)"
    using assms by (intro powr_mono2) simp_all
  then show "x powr 2.4 \<le> hi" by (simp only: root[OF assms(3)] e)
qed

lemma srgb_linear_above:
  assumes "0.03928 < s"
  shows "srgb_linear s = ((s + 0.055) / 1.055) powr 2.4"
  using assms by (simp add: srgb_linear_def)

lemma srgb_linear_244: "0.9046 \<le> srgb_linear (244 / 255)" "srgb_linear (244 / 255) \<le> 0.9047"
proof -
  have s: "srgb_linear (244 / 255) = (10321 / 10761) powr 2.4"
    by (subst srgb_linear_above) simp_all
  have b: "(0.9046::real) ^ 5 \<le> (10321 / 10761) ^ 12" "((10321::real) / 10761) ^ 12 \<le> 0.9047 ^ 5"
    by (simp_all add: power_divide divide_simps)
  show "0.9046 \<le> srgb_linear (244 / 255)" "srgb_linear (244 / 255) \<le> 0.9047"
    unfolding s using powr_2_4_bounds[OF _ _ _ b] by simp_all
qed

lemma srgb_linear_241: "0.8796 \<le> srgb_linear (241 / 255)" "srgb_linear (241 / 255) \<le> 0.8797"
proof -
  have s: "srgb_linear (241 / 255) = (10201 / 10761) powr 2.4"
    by (subst srgb_linear_above) simp_all
  have b: "(0.8796::real) ^ 5 \<le> (10201 / 10761) ^ 12" "((10201::real) / 10761) ^ 12 \<le> 0.8797 ^ 5"
    by (simp_all add: power_divide divide_simps)
  show "0.8796 \<le> srgb_linear (241 / 255)" "srgb_linear (241 / 255) \<le> 0.8797"
    unfolding s using powr_2_4_bounds[OF _ _ _ b] by simp_all
qed

lemma srgb_linear_26: "0.01032 \<le> srgb_linear (26 / 255)" "srgb_linear (26 / 255) \<le> 0.01033"
proof -
  have s: "srgb_linear (26 / 255) = (1601 / 10761) powr 2.4"
    by (subst srgb_linear_above) simp_all
  have b: "(0.01032::real) ^ 5 \<le> (1601 / 10761) ^ 12" "((1601::real) / 10761) ^ 12 \<le> 0.01033 ^ 5"
    by (simp_all add: power_divide divide_simps)
  show "0.01032 \<le> srgb_linear (26 / 255)" "srgb_linear (26 / 255) \<le> 0.01033"
    unfolding s using powr_2_4_bounds[OF _ _ _ b] by simp_all
qed

lemma srgb_linear_13: "0.004024 \<le> srgb_linear (13 / 255)" "srgb_linear (13 / 255) \<le> 0.004025"
proof -
  have s: "srgb_linear (13 / 255) = (1081 / 10761) powr 2.4"
    by (subst srgb_linear_above) simp_all
  have b: "(0.004024::real) ^ 5 \<le> (1081 / 10761) ^ 12" "((1081::real) / 10761) ^ 12 \<le> 0.004025 ^ 5"
    by (simp_all add: power_divide divide_simps)
  show "0.004024 \<le> srgb_linear (13 / 255)" "srgb_linear (13 / 255) \<le> 0.004025"
    unfolding s using powr_2_4_bounds[OF _ _ _ b] by simp_all
qed

lemma srgb_linear_38: "0.01938 \<le> srgb_linear (38 / 255)" "srgb_linear (38 / 255) \<le> 0.01939"
proof -
  have s: "srgb_linear (38 / 255) = (2081 / 10761) powr 2.4"
    by (subst srgb_linear_above) simp_all
  have b: "(0.01938::real) ^ 5 \<le> (2081 / 10761) ^ 12" "((2081::real) / 10761) ^ 12 \<le> 0.01939 ^ 5"
    by (simp_all add: power_divide divide_simps)
  show "0.01938 \<le> srgb_linear (38 / 255)" "srgb_linear (38 / 255) \<le> 0.01939"
    unfolding s using powr_2_4_bounds[OF _ _ _ b] by simp_all
qed

lemma luminance_foreground:
  "0.88672 \<le> wcag_luminance 244 241 244" "wcag_luminance 244 241 244 \<le> 0.88682"
  using srgb_linear_244 srgb_linear_241 by (simp_all add: wcag_luminance_def)

lemma luminance_background:
  "0.0064712 \<le> wcag_luminance 26 13 38" "wcag_luminance 26 13 38 \<le> 0.0064748"
  using srgb_linear_26 srgb_linear_13 srgb_linear_38 by (simp_all add: wcag_luminance_def)

lemma hexToRgb_editor:
  "hexToRgb ''#1a0d26'' =
     Some \<lparr>rgb_r = Num 26, rgb_g = Num 13, rgb_b = Num 38, rgb_a = Some (Num 1)\<rparr>"
  "hexToRgb ''#f4f1f4'' =
     Some \<lparr>rgb_r = Num 244, rgb_g = Num 241, rgb_b = Num 244, rgb_a = Some (Num 1)\<rparr>"
  by (simp_all add: hexToRgb_def substr2_def parseInt16_def hex_value_def digit_of_def
      is_hex_digit_def hex_digit_value_def is_whitespace_def)

lemma editor_contrast:
  "\<exists>x. calculateContrastRatio ''#1a0d26'' ''#f4f1f4'' = Num x \<and> 16.58 \<le> x \<and> x \<le> 16.59"
proof -
  define d where "d = wcag_luminance 26 13 38"
  define l where "l = wcag_luminance 244 241 244"
  have d: "0.0064712 \<le> d" "d \<le> 0.0064748" and l: "0.88672 \<le> l" "l \<le> 0.88682"
    using luminance_background luminance_foreground by (simp_all add: d_def l_def)
  have pos: "0 \<le> d" "0 \<le> l" using d l by simp_all
  have mm: "max d l = l" "min d l = d" using d l by (simp_all add: max_def min_def)
  have eq: "calculateContrastRatio ''#1a0d26'' ''#f4f1f4'' = Num ((l + 0.05) / (d + 0.05))"
    by (simp add: calculateContrastRatio_def hexToRgb_editor
        getRelativeLuminance_Num[of _ 26 13 38] getRelativeLuminance_Num[of _ 244 241 244]
        d_def[symmetric] l_def[symmetric] contrast_of_luminances_Num[OF pos] mm)
  have dpos: "0 < d + 0.05" using d by simp
  have "16.58 * (d + 0.05) \<le> l + 0.05" using d l by simp
  then have lo: "16.58 \<le> (l + 0.05) / (d + 0.05)"
    using dpos by (simp add: le_divide_eq)
  have "l + 0.05 \<le> 16.59 * (d + 0.05)" using d l by simp
  then have hi: "(l + 0.05) / (d + 0.05) \<le> 16.59"
    using dpos by (simp add: divide_le_eq)
  from eq lo hi show ?thesis by blast
qed

text \<open>
  C3 (fails on the code). The contrast ratio of the editor background \<open>#1a0d26\<close> and
  foreground \<open>#f4f1f4\<close> is not at most 12.9, so it is not within 0.1 of 12.8.
\<close>

theorem editor_contrast_counterexample:
  "\<not> jle (calculateContrastRatio ''#1a0d26'' ''#f4f1f4'') (Num 12.9)"
proof -
  obtain x where "calculateContrastRatio ''#1a0d26'' ''#f4f1f4'' = Num x" "16.58 \<le> x"
    using editor_contrast by blast
  then show ?thesis by simp
qed

text \<open>
  C3 as amended. The contrast ratio of the editor background \<open>#1a0d26\<close> and foreground
  \<open>#f4f1f4\<close> lies between 16.58 and 16.59, and the pair meets both AA and AAA for the
  category \<open>normalText\<close>.
\<close>

theorem editor_contrast_ratio:
  "jle (Num 16.58) (calculateContrastRatio ''#1a0d26'' ''#f4f1f4'')
   \<and> jle (calculateContrastRatio ''#1a0d26'' ''#f4f1f4'') (Num 16.59)
   \<and> meetsAA (contrast_verdict (calculateContrastRatio ''#1a0d26'' ''#f4f1f4'')
        (WCAG_STANDARDS_AA ''normalText'') (WCAG_STANDARDS_AAA ''normalText''))
   \<and> meetsAAA (contrast_verdict (calculateContrastRatio ''#1a0d26'' ''#f4f1f4'')
        (WCAG_STANDARDS_AA ''normalText'') (WCAG_STANDARDS_AAA ''normalText''))"
proof -
  obtain x where "calculateContrastRatio ''#1a0d26'' ''#f4f1f4'' = Num x" "16.58 \<le> x"
    "x \<le> 16.59"
    using editor_contrast by blast
  then show ?thesis
    by (simp add: WCAG_STANDARDS_table meetsAA_def meetsAAA_def contrast_verdict_def
        jlt_required_def)
qed

subsection \<open>Colour-blindness separation\<close>

declare hex_digits.simps [simp del]

lemma hex_char_digit:
  assumes "d < 16"
  shows "is_hex_digit (hex_char d)" "digit_of (hex_char d) = d"
proof -
  have "d = 0 \<or> d = 1 \<or> d = 2 \<or> d = 3 \<or> d = 4 \<or> d = 5 \<or> d = 6 \<or> d = 7 \<or> d = 8
      \<or> d = 9 \<or> d = 10 \<or> d = 11 \<or> d = 12 \<or> d = 13 \<or> d = 14 \<or> d = 15"
    using assms by arith
  then have d: "d \<in> {0, 1, 2, 3, 4, 5, 6, 7, 8, 9, 10, 11, 12, 13, 14, 15}"
    by blast
  from d show "is_hex_digit (hex_char d)"
    by (auto simp: hex_char_def is_hex_digit_def hex_digit_value_def)
  from d show "digit_of (hex_char d) = d"
    by (auto simp: hex_char_def digit_of_def hex_digit_value_def)
qed

lemma padStart2_hex_digits:
  assumes "n \<le> 255"
  shows "padStart2 (hex_digits n) = [hex_char (n div 16), hex_char (n mod 16)]"
proof (cases "n < 16")
  case True
  then show ?thesis
    by (simp add: hex_digits.simps[of n] padStart2_def hex_char_def)
next
  case False
  have "n div 16 < 16" using assms by simp
  then have "hex_digits (n div 16) = [hex_char (n div 16)]"
    by (simp add: hex_digits.simps[of "n div 16"])
  with False show ?thesis
    by (simp add: hex_digits.simps[of n] padStart2_def)
qed

lemma parseInt16_padStart2:
  assumes "0 \<le> i" "i \<le> 255"
  shows "\<exists>c1 c2. padStart2 (toString16 (Num i)) = [c1, c2]
    \<and> is_hex_digit c1 \<and> is_hex_digit c2 \<and> parseInt16 [c1, c2] = Num (of_int i)"
proof -
  define n where "n = nat i"
  have n: "n \<le> 255" "int n = i" using assms by (simp_all add: n_def)
  have lt: "n div 16 < 16" "n mod 16 < 16" using n by simp_all
  have p: "padStart2 (toString16 (Num i)) = [hex_char (n div 16), hex_char (n mod 16)]"
    using assms padStart2_hex_digits[OF n(1)] by (simp add: n_def)
  have "parseInt16 [hex_char (n div 16), hex_char (n mod 16)]
      = Num (real (16 * (n div 16) + n mod 16))"
    using parseInt16_two_digits[OF hex_char_digit(1)[OF lt(1)] hex_char_digit(1)[OF lt(2)]]
    by (simp only: hex_char_digit(2)[OF lt(1)] hex_char_digit(2)[OF lt(2)])
  also have "16 * (n div 16) + n mod 16 = n" by simp
  also have "real n = of_int i" using n(2) by (metis of_int_of_nat_eq)
  finally show ?thesis
    using p hex_char_digit(1)[OF lt(1)] hex_char_digit(1)[OF lt(2)] by blast
qed

lemma channels_SomeD:
  assumes "channels c = Some (x, y, z)"
  shows "rgb_r c = Num x" "rgb_g c = Num y" "rgb_b c = Num z"
  using assms
  by (cases "rgb_r c"; cases "rgb_g c"; cases "rgb_b c"; simp add: channels_def)+

lemma valid_rgb_channels:
  assumes "valid_rgb c"
  obtains x y z where "channels c = Some (x, y, z)"
    "0 \<le> x" "x \<le> 255" "0 \<le> y" "y \<le> 255" "0 \<le> z" "z \<le> 255"
  using assms unfolding valid_rgb_def
  by (cases "rgb_r c"; cases "rgb_g c"; cases "rgb_b c") (simp_all add: channels_def)

lemma weighted_sum_range:
  fixes x y z :: real
  assumes "0 \<le> x" "x \<le> 255" "0 \<le> y" "y \<le> 255" "0 \<le> z" "z \<le> 255"
    and "0 \<le> a" "0 \<le> b" "0 \<le> c" "a + b + c = 1"
  shows "0 \<le> x * a + y * b + z * c" "x * a + y * b + z * c \<le> 255"
proof -
  show "0 \<le> x * a + y * b + z * c"
    using assms by simp
  have "x * a + y * b + z * c \<le> 255 * a + 255 * b + 255 * c"
    by (intro add_mono mult_right_mono) (use assms in simp_all)
  also have "\<dots> = 255 * (a + b + c)" by (simp add: algebra_simps)
  finally show "x * a + y * b + z * c \<le> 255" using assms by simp
qed

lemma round_half_up_near:
  assumes "\<bar>d\<bar> \<le> 1 / 100"
  shows "\<bar>round_half_up (t + d) - t\<bar> \<le> 51 / 100"
proof -
  have "of_int \<lfloor>t + d + 1 / 2\<rfloor> \<le> t + d + 1 / 2"
    by (rule of_int_floor_le)
  moreover have "t + d + 1 / 2 < of_int \<lfloor>t + d + 1 / 2\<rfloor> + 1"
    by linarith
  ultimately show ?thesis
    using assms unfolding round_half_up_def by linarith
qed

lemma apply_row_valid:
  assumes "channels c = Some (x, y, z)"
    and "0 \<le> x" "x \<le> 255" "0 \<le> y" "y \<le> 255" "0 \<le> z" "z \<le> 255"
    and "weights_row row" "small_deviation dev"
  shows "\<exists>i. apply_row dev c row = Num i \<and> 0 \<le> i \<and> i \<le> 255
    \<and> of_int i = simulate_channel dev row (x, y, z)"
proof -
  define t where "t = x * row ! 0 + y * row ! 1 + z * row ! 2"
  define d where "d = dev row (Num x, Num y, Num z)"
  have w: "0 \<le> row ! 0" "0 \<le> row ! 1" "0 \<le> row ! 2" "row ! 0 + row ! 1 + row ! 2 = 1"
    using assms(8) by (simp_all add: weights_row_def)
  have t: "0 \<le> t" "t \<le> 255"
    unfolding t_def using weighted_sum_range[OF assms(2-7) w] by simp_all
  have "\<bar>d\<bar> \<le> 1 / 100"
    using assms(9) unfolding small_deviation_def d_def by blast
  then have d: "- (1 / 100) \<le> d" "d \<le> 1 / 100"
    by linarith+
  have a: "apply_row dev c row = Num \<lfloor>t + d + 1 / 2\<rfloor>"
    by (simp add: apply_row_def channels_SomeD[OF assms(1)] t_def d_def)
  have "0 \<le> t + d + 1 / 2" using t d by simp
  then have "0 \<le> \<lfloor>t + d + 1 / 2\<rfloor>" by simp
  moreover have "\<lfloor>t + d + 1 / 2\<rfloor> \<le> 255"
  proof -
    have "t + d + 1 / 2 < 256" using t d by simp
    then have "\<lfloor>t + d + 1 / 2\<rfloor> < 256" by (simp add: floor_less_iff)
    then show ?thesis by simp
  qed
  moreover have "of_int \<lfloor>t + d + 1 / 2\<rfloor> = simulate_channel dev row (x, y, z)"
    by (simp add: simulate_channel_def round_half_up_def row_product_def t_def d_def)
  ultimately show ?thesis using a by blast
qed

lemma simulate_rgb_near:
  assumes "small_deviation dev"
  shows "near_matrix m v (simulate_rgb dev m v)"
proof -
  obtain x y z where v: "v = (x, y, z)" by (cases v)
  have "\<bar>simulate_channel dev row v - row_product row v\<bar> \<le> 51 / 100" for row
  proof -
    have "\<bar>dev row (Num x, Num y, Num z)\<bar> \<le> 1 / 100"
      using assms unfolding small_deviation_def by blast
    then show ?thesis
      using round_half_up_near[of "dev row (Num x, Num y, Num z)" "row_product row v"]
      by (simp add: simulate_channel_def v)
  qed
  then show ?thesis by (simp add: near_matrix_def simulate_rgb_def)
qed

lemma hexToRgb_six:
  "hexToRgb (CHR ''#'' # [a1, a2, b1, b2, c1, c2]) =
     Some \<lparr>rgb_r = parseInt16 [a1, a2], rgb_g = parseInt16 [b1, b2],
           rgb_b = parseInt16 [c1, c2], rgb_a = Some (Num 1)\<rparr>"
  by (simp add: hexToRgb_def substr2_def)

lemma simulateColorBlindness_valid:
  assumes "hexToRgb color = Some c" "channels c = Some v" "valid_rgb c" "weights_matrix m"
    and "small_deviation dev"
  shows "\<exists>s c'. simulateColorBlindness dev color (Some m) = Inr s \<and> hexToRgb s = Some c'
    \<and> channels c' = Some (simulate_rgb dev m v)"
proof -
  obtain x y z where v: "channels c = Some (x, y, z)"
    and r: "0 \<le> x" "x \<le> 255" "0 \<le> y" "y \<le> 255" "0 \<le> z" "z \<le> 255"
    using assms(3) by (rule valid_rgb_channels)
  have vv: "v = (x, y, z)" using assms(2) v by simp
  have rows: "weights_row (m ! 0)" "weights_row (m ! 1)" "weights_row (m ! 2)"
    using assms(4) by (simp_all add: weights_matrix_def)
  obtain i0 where i0: "apply_row dev c (m ! 0) = Num i0" "0 \<le> i0" "i0 \<le> 255"
    "of_int i0 = simulate_channel dev (m ! 0) (x, y, z)"
    using apply_row_valid[OF v r rows(1) assms(5)] by blast
  obtain i1 where i1: "apply_row dev c (m ! 1) = Num i1" "0 \<le> i1" "i1 \<le> 255"
    "of_int i1 = simulate_channel dev (m ! 1) (x, y, z)"
    using apply_row_valid[OF v r rows(2) assms(5)] by blast
  obtain i2 where i2: "apply_row dev c (m ! 2) = Num i2" "0 \<le> i2" "i2 \<le> 255"
    "of_int i2 = simulate_channel dev (m ! 2) (x, y, z)"
    using apply_row_valid[OF v r rows(3) assms(5)] by blast
  obtain a1 a2 where a: "padStart2 (toString16 (Num i0)) = [a1, a2]"
    "parseInt16 [a1, a2] = Num (of_int i0)"
    using parseInt16_padStart2[OF i0(2,3)] by blast
  obtain b1 b2 where b: "padStart2 (toString16 (Num i1)) = [b1, b2]"
    "parseInt16 [b1, b2] = Num (of_int i1)"
    using parseInt16_padStart2[OF i1(2,3)] by blast
  obtain c1 c2 where c: "padStart2 (toString16 (Num i2)) = [c1, c2]"
    "parseInt16 [c1, c2] = Num (of_int i2)"
    using parseInt16_padStart2[OF i2(2,3)] by blast
  have s: "simulateColorBlindness dev color (Some m)
      = Inr (CHR ''#'' # [a1, a2, b1, b2, c1, c2])"
    by (simp only: simulateColorBlindness_def assms(1) Let_def option.case
        i0(1) i1(1) i2(1) a(1) b(1) c(1) append.simps)
  have "channels \<lparr>rgb_r = parseInt16 [a1, a2], rgb_g = parseInt16 [b1, b2],
           rgb_b = parseInt16 [c1, c2], rgb_a = Some (Num 1)\<rparr> = Some (simulate_rgb dev m v)"
    by (simp add: channels_def a(2) b(2) c(2) i0(4) i1(4) i2(4) simulate_rgb_def vv)
  with s hexToRgb_six[of a1 a2 b1 b2 c1 c2] show ?thesis by blast
qed

lemma calculateColorDifference_channels:
  assumes "hexToRgb s1 = Some c1" "channels c1 = Some v"
    and "hexToRgb s2 = Some c2" "channels c2 = Some w"
  shows "calculateColorDifference s1 s2 = Num (rgb_distance v w)"
proof -
  obtain x1 y1 z1 x2 y2 z2 where vw: "v = (x1, y1, z1)" "w = (x2, y2, z2)"
    by (cases v; cases w) blast
  have nonneg: "\<not> (x1 - x2) * (x1 - x2) + (y1 - y2) * (y1 - y2) + (z1 - z2) * (z1 - z2) < 0"
    by (simp add: not_less)
  show ?thesis
    using nonneg
    by (simp add: calculateColorDifference_def assms(1,3)
        channels_SomeD[OF assms(2)[unfolded vw]] channels_SomeD[OF assms(4)[unfolded vw]]
        jsub_def rgb_distance_def vw)
qed

lemma COLOR_BLINDNESS_MATRICES_weights:
  assumes "COLOR_BLINDNESS_MATRICES ty = Some m"
  shows "weights_matrix m"
  using assms
  by (auto simp: COLOR_BLINDNESS_MATRICES_def weights_matrix_def weights_row_def
      split: if_splits)

lemma rgb_distance_pos:
  assumes "v \<noteq> w"
  shows "0 < rgb_distance v w"
proof -
  obtain x1 y1 z1 x2 y2 z2 where vw: "v = (x1, y1, z1)" "w = (x2, y2, z2)"
    by (cases v; cases w) blast
  have "x1 - x2 \<noteq> 0 \<or> y1 - y2 \<noteq> 0 \<or> z1 - z2 \<noteq> 0"
    using assms vw by auto
  then have "0 < (x1 - x2) * (x1 - x2) + (y1 - y2) * (y1 - y2) + (z1 - z2) * (z1 - z2)"
    by (metis add_less_same_cancel1 add_less_same_cancel2 not_less_iff_gr_or_eq
        not_sum_squares_lt_zero sum_squares_gt_zero_iff add_pos_nonneg add_nonneg_pos
        zero_le_square)
  then show ?thesis by (simp add: rgb_distance_def vw)
qed

lemma rgb_distance_nonneg: "0 \<le> rgb_distance v w"
  by (cases v; cases w) (simp add: rgb_distance_def)

lemma separation_finite:
  assumes "v \<noteq> w"
  shows "\<exists>q. separation dev m v w = Num q \<and> 0 \<le> q"
proof -
  have "rgb_distance v w \<noteq> 0" using rgb_distance_pos[OF assms] by simp
  then have "separation dev m v w
      = Num (rgb_distance (simulate_rgb dev m v) (simulate_rgb dev m w) / rgb_distance v w)"
    by (simp add: separation_def)
  moreover have
    "0 \<le> rgb_distance (simulate_rgb dev m v) (simulate_rgb dev m w) / rgb_distance v w"
    using rgb_distance_nonneg by simp
  ultimately show ?thesis by blast
qed

lemma reduction_ratio_valid:
  assumes "hexToRgb color1 = Some c1" "valid_rgb c1" "channels c1 = Some v"
    and "hexToRgb color2 = Some c2" "valid_rgb c2" "channels c2 = Some w"
    and "COLOR_BLINDNESS_MATRICES ty = Some m" "small_deviation dev"
  shows "ratio_of (reduction_ratio dev (COLOR_BLINDNESS_MATRICES ty) color1 color2)
    = Some (separation dev m v w)"
proof -
  have wm: "weights_matrix m"
    using assms(7) by (rule COLOR_BLINDNESS_MATRICES_weights)
  obtain s1 d1 where s1: "simulateColorBlindness dev color1 (Some m) = Inr s1"
    "hexToRgb s1 = Some d1" "channels d1 = Some (simulate_rgb dev m v)"
    using simulateColorBlindness_valid[OF assms(1,3,2) wm assms(8)] by blast
  obtain s2 d2 where s2: "simulateColorBlindness dev color2 (Some m) = Inr s2"
    "hexToRgb s2 = Some d2" "channels d2 = Some (simulate_rgb dev m w)"
    using simulateColorBlindness_valid[OF assms(4,6,5) wm assms(8)] by blast
  have before: "calculateColorDifference color1 color2 = Num (rgb_distance v w)"
    using assms(1,3,4,6) by (rule calculateColorDifference_channels)
  have after: "calculateColorDifference s1 s2
      = Num (rgb_distance (simulate_rgb dev m v) (simulate_rgb dev m w))"
    using s1(2,3) s2(2,3) by (rule calculateColorDifference_channels)
  show ?thesis
    by (simp add: reduction_ratio_def assms(7) s1(1) s2(1) before after ratio_of_def
        separation_def)
qed

lemma hexToRgb_accent:
  "hexToRgb ''#ff6b35'' =
     Some \<lparr>rgb_r = Num 255, rgb_g = Num 107, rgb_b = Num 53, rgb_a = Some (Num 1)\<rparr>"
  "hexToRgb ''#8b7a9b'' =
     Some \<lparr>rgb_r = Num 139, rgb_g = Num 122, rgb_b = Num 155, rgb_a = Some (Num 1)\<rparr>"
  by (simp_all add: hexToRgb_def substr2_def parseInt16_def hex_value_def digit_of_def
      is_hex_digit_def hex_digit_value_def is_whitespace_def)

lemma accent_pair_separation:
  assumes "COLOR_BLINDNESS_MATRICES ty = Some m" "small_deviation dev"
  shows "\<exists>q. ratio_of (reduction_ratio dev (COLOR_BLINDNESS_MATRICES ty) ''#ff6b35'' ''#8b7a9b'')
      = Some (Num q) \<and> 0 \<le> q"
proof -
  have v: "valid_rgb \<lparr>rgb_r = Num 255, rgb_g = Num 107, rgb_b = Num 53, rgb_a = Some (Num 1)\<rparr>"
    "valid_rgb \<lparr>rgb_r = Num 139, rgb_g = Num 122, rgb_b = Num 155, rgb_a = Some (Num 1)\<rparr>"
    by (simp_all add: valid_rgb_def)
  have c: "channels \<lparr>rgb_r = Num 255, rgb_g = Num 107, rgb_b = Num 53, rgb_a = Some (Num 1)\<rparr>
      = Some (255, 107, 53)"
    "channels \<lparr>rgb_r = Num 139, rgb_g = Num 122, rgb_b = Num 155, rgb_a = Some (Num 1)\<rparr>
      = Some (139, 122, 155)"
    by (simp_all add: channels_def)
  have ne: "(255, 107, 53) \<noteq> (139, 122, 155 :: real)" by simp
  show ?thesis
    using reduction_ratio_valid[OF hexToRgb_accent(1) v(1) c(1) hexToRgb_accent(2) v(2) c(2)
        assms] separation_finite[OF ne, of dev m]
    by auto
qed

lemma simulateColorBlindness_no_error:
  "\<exists>s. simulateColorBlindness dev color (Some m) = Inr s"
  by (cases "hexToRgb color") (simp_all add: simulateColorBlindness_def Let_def)

lemma reduction_ratio_no_error:
  "\<exists>s1 s2 red. reduction_ratio dev (Some m) color1 color2 = Inr (s1, s2, red)"
proof -
  obtain s1 s2 where "simulateColorBlindness dev color1 (Some m) = Inr s1"
    "simulateColorBlindness dev color2 (Some m) = Inr s2"
    using simulateColorBlindness_no_error by blast
  then show ?thesis by (simp add: reduction_ratio_def Let_def)
qed

lemma validateColorBlindnessType_no_error:
  assumes "COLOR_BLINDNESS_MATRICES ty = Some m"
  shows "\<exists>s'. validateColorBlindnessType dev s ty colorPairs = Inr s'"
proof (induction colorPairs arbitrary: s)
  case Nil
  show ?case by simp
next
  case (Cons p colorPairs)
  obtain color1 color2 where p: "p = (color1, color2)" by (cases p)
  obtain s1 s2 red where r: "reduction_ratio dev (Some m) color1 color2 = Inr (s1, s2, red)"
    using reduction_ratio_no_error by blast
  show ?case
    using Cons.IH by (simp add: p assms r)
qed

lemma hexToRgb_black_alpha:
  "hexToRgb ''#00000000'' =
     Some \<lparr>rgb_r = Num 0, rgb_g = Num 0, rgb_b = Num 0, rgb_a = Some (Num 0)\<rparr>"
  "hexToRgb ''#000000ff'' =
     Some \<lparr>rgb_r = Num 0, rgb_g = Num 0, rgb_b = Num 0, rgb_a = Some (Num 1)\<rparr>"
  by (simp_all add: hexToRgb_def substr2_def parseInt16_def hex_value_def digit_of_def
      is_hex_digit_def hex_digit_value_def is_whitespace_def)

lemma simulate_black:
  assumes "hexToRgb color = Some c" "rgb_r c = Num 0" "rgb_g c = Num 0" "rgb_b c = Num 0"
  shows "simulateColorBlindness no_deviation color (Some m) = Inr ''#000000''"
  by (simp add: simulateColorBlindness_def assms apply_row_def no_deviation_def
      hex_digits.simps[of 0] hex_char_def padStart2_def)

text \<open>
  C8 (fails on the code). The literals \<open>#00000000\<close> and \<open>#000000ff\<close> are two
  well-formed colours that differ in their alpha channel only. The simulation and the
  distance ignore alpha, both distances are 0, and the ratio is \<open>0 / 0\<close>, which is
  \<open>NaN\<close> and not a number from 0 upwards. All the products and sums for black are
  exactly 0 in doubles as well, so the deviation is \<open>no_deviation\<close> here.
\<close>

theorem separation_alpha_counterexample:
  "hex_color ''#00000000'' \<and> hex_color ''#000000ff''
   \<and> hexToRgb ''#00000000'' \<noteq> hexToRgb ''#000000ff''
   \<and> ratio_of (reduction_ratio no_deviation (COLOR_BLINDNESS_MATRICES ''protanopia'')
        ''#00000000'' ''#000000ff'') = Some NaN"
proof -
  have h: "hex_color ''#00000000''" "hex_color ''#000000ff''"
    by (simp_all add: hex_color_def is_hex_digit_def hex_digit_value_def)
  have ne: "hexToRgb ''#00000000'' \<noteq> hexToRgb ''#000000ff''"
    by (simp add: hexToRgb_black_alpha)
  obtain m where m: "COLOR_BLINDNESS_MATRICES ''protanopia'' = Some m"
    by (simp add: COLOR_BLINDNESS_MATRICES_def)
  have s: "simulateColorBlindness no_deviation ''#00000000'' (Some m) = Inr ''#000000''"
    "simulateColorBlindness no_deviation ''#000000ff'' (Some m) = Inr ''#000000''"
    by (simp_all add: simulate_black[OF hexToRgb_black_alpha(1)]
        simulate_black[OF hexToRgb_black_alpha(2)])
  have d: "calculateColorDifference ''#00000000'' ''#000000ff'' = Num 0"
    "calculateColorDifference ''#000000'' ''#000000'' = Num 0"
    by (simp_all add: calculateColorDifference_def hexToRgb_black_alpha hexToRgb_black
        jsub_def)
  have "ratio_of (reduction_ratio no_deviation (COLOR_BLINDNESS_MATRICES ''protanopia'')
        ''#00000000'' ''#000000ff'') = Some NaN"
    by (simp add: reduction_ratio_def m s d ratio_of_def inf_of_sign_def)
  with h ne show ?thesis by blast
qed

text \<open>
  C8 as amended. For two well-formed colour literals and each of the three deficiency
  types, whatever the rounding error of the doubles below 1/100, no error is raised and
  the ratio computed is the Euclidean distance of the two simulated colours divided by
  the Euclidean distance of the two colours; each channel of a simulated colour is the
  integer that \<open>Math.round\<close> gives for the row of the matrix applied to the three
  channels, within 51/100 of the exact product. When the two colours differ in one of
  the channels red, green and blue, the ratio is a number that is not negative. In
  particular this is so for \<open>#ff6b35\<close> against \<open>#8b7a9b\<close> under protanopia,
  deuteranopia and tritanopia. The loop of \<open>validateColorBlindnessType\<close> over any list
  of pairs ends without an error.
\<close>

theorem reduction_ratio_separation:
  assumes "small_deviation dev"
    and "hex_color color1" "hex_color color2" "COLOR_BLINDNESS_MATRICES ty = Some m"
  shows "(\<exists>c1 c2 v w. hexToRgb color1 = Some c1 \<and> channels c1 = Some v
        \<and> hexToRgb color2 = Some c2 \<and> channels c2 = Some w
        \<and> ratio_of (reduction_ratio dev (COLOR_BLINDNESS_MATRICES ty) color1 color2)
            = Some (separation dev m v w)
        \<and> near_matrix m v (simulate_rgb dev m v) \<and> near_matrix m w (simulate_rgb dev m w)
        \<and> (v \<noteq> w \<longrightarrow> (\<exists>q. separation dev m v w = Num q \<and> 0 \<le> q)))
    \<and> (\<forall>t \<in> {''protanopia'', ''deuteranopia'', ''tritanopia''}.
         COLOR_BLINDNESS_MATRICES t \<noteq> None
         \<and> (\<exists>q. ratio_of (reduction_ratio dev (COLOR_BLINDNESS_MATRICES t)
                    ''#ff6b35'' ''#8b7a9b'') = Some (Num q) \<and> 0 \<le> q))
    \<and> (\<exists>s'. validateColorBlindnessType dev s ty colorPairs = Inr s')"
proof -
  obtain c1 where c1: "hexToRgb color1 = Some c1" "valid_rgb c1"
    using hexToRgb_hex_color[OF assms(2)] by blast
  obtain c2 where c2: "hexToRgb color2 = Some c2" "valid_rgb c2"
    using hexToRgb_hex_color[OF assms(3)] by blast
  obtain v where v: "channels c1 = Some v"
    using c1(2) by (rule valid_rgb_channels)
  obtain w where w: "channels c2 = Some w"
    using c2(2) by (rule valid_rgb_channels)
  have r: "ratio_of (reduction_ratio dev (COLOR_BLINDNESS_MATRICES ty) color1 color2)
      = Some (separation dev m v w)"
    using c1 v c2 w assms(4,1) by (rule reduction_ratio_valid)
  have general: "\<exists>c1 c2 v w. hexToRgb color1 = Some c1 \<and> channels c1 = Some v
        \<and> hexToRgb color2 = Some c2 \<and> channels c2 = Some w
        \<and> ratio_of (reduction_ratio dev (COLOR_BLINDNESS_MATRICES ty) color1 color2)
            = Some (separation dev m v w)
        \<and> near_matrix m v (simulate_rgb dev m v) \<and> near_matrix m w (simulate_rgb dev m w)
        \<and> (v \<noteq> w \<longrightarrow> (\<exists>q. separation dev m v w = Num q \<and> 0 \<le> q))"
    using c1(1) c2(1) v w r separation_finite[of v w dev m]
      simulate_rgb_near[OF assms(1), of m v] simulate_rgb_near[OF assms(1), of m w]
    by blast
  have known: "COLOR_BLINDNESS_MATRICES ''protanopia'' \<noteq> None"
    "COLOR_BLINDNESS_MATRICES ''deuteranopia'' \<noteq> None"
    "COLOR_BLINDNESS_MATRICES ''tritanopia'' \<noteq> None"
    by (simp_all add: COLOR_BLINDNESS_MATRICES_def)
  have "COLOR_BLINDNESS_MATRICES t \<noteq> None
      \<and> (\<exists>q. ratio_of (reduction_ratio dev (COLOR_BLINDNESS_MATRICES t)
                 ''#ff6b35'' ''#8b7a9b'') = Some (Num q) \<and> 0 \<le> q)"
    if "t \<in> {''protanopia'', ''deuteranopia'', ''tritanopia''}" for t
  proof -
    from that known obtain mt where "COLOR_BLINDNESS_MATRICES t = Some mt" by auto
    then show ?thesis using accent_pair_separation[OF _ assms(1)] by simp
  qed
  with general validateColorBlindnessType_no_error[OF assms(4)] show ?thesis by blast
qed

theorem reduction_ratio_separation_witness:
  "small_deviation no_deviation \<and> hex_color ''#ff6b35'' \<and> hex_color ''#8b7a9b''
   \<and> COLOR_BLINDNESS_MATRICES ''protanopia''
       = Some [[0.567, 0.433, 0.000], [0.558, 0.442, 0.000], [0.000, 0.242, 0.758]]
   \<and> ratio_of (reduction_ratio no_deviation (COLOR_BLINDNESS_MATRICES ''protanopia'')
       ''#ff6b35'' ''#8b7a9b'') = Some (Num (sqrt 13523 / sqrt 24085))"
proof -
  define M :: "real list list"
    where "M = [[0.567, 0.433, 0.000], [0.558, 0.442, 0.000], [0.000, 0.242, 0.758]]"
  have sd: "small_deviation no_deviation"
    by (simp add: small_deviation_def no_deviation_def)
  have h: "hex_color ''#ff6b35''" "hex_color ''#8b7a9b''"
    by (simp_all add: hex_color_def is_hex_digit_def hex_digit_value_def)
  have m: "COLOR_BLINDNESS_MATRICES ''protanopia'' = Some M"
    by (simp add: COLOR_BLINDNESS_MATRICES_def M_def)
  have f: "\<lfloor>190916 / (1000::real) + 1 / 2\<rfloor> = 191" "\<lfloor>189584 / (1000::real) + 1 / 2\<rfloor> = 190"
    "\<lfloor>66068 / (1000::real) + 1 / 2\<rfloor> = 66" "\<lfloor>131639 / (1000::real) + 1 / 2\<rfloor> = 132"
    "\<lfloor>131486 / (1000::real) + 1 / 2\<rfloor> = 131" "\<lfloor>147014 / (1000::real) + 1 / 2\<rfloor> = 147"
    by (simp_all add: floor_eq_iff)
  have s: "separation no_deviation M (255, 107, 53) (139, 122, 155)
      = Num (sqrt 13523 / sqrt 24085)"
    by (simp add: separation_def simulate_rgb_def simulate_channel_def row_product_def
        round_half_up_def rgb_distance_def no_deviation_def f M_def)
  obtain c1 c2 v w where p: "hexToRgb ''#ff6b35'' = Some c1" "channels c1 = Some v"
    "hexToRgb ''#8b7a9b'' = Some c2" "channels c2 = Some w"
    "ratio_of (reduction_ratio no_deviation (COLOR_BLINDNESS_MATRICES ''protanopia'')
       ''#ff6b35'' ''#8b7a9b'') = Some (separation no_deviation M v w)"
    using reduction_ratio_separation[OF sd h m] by blast
  have "v = (255, 107, 53)" "w = (139, 122, 155)"
    using p(1-4) by (auto simp: hexToRgb_accent channels_def)
  with p(5) s sd h m show ?thesis by (simp add: M_def)
qed

text \<open>
  Where the deviation matters: for the blue channel 45 and the row \<open>[0, 0.3, 0.7]\<close> of
  the deuteranopia matrix the exact sum is the tie 31.5. The doubles give
  \<open>31.499999999999996\<close>, a deviation of \<open>- 1 / 2 ^ 48\<close>, and the channel is 31; without
  a deviation it would be 32.
\<close>

lemma apply_row_at_tie:
  assumes "dev [0.000, 0.300, 0.700] (Num 0, Num 0, Num 45) = - (1 / 2 ^ 48)"
  shows "apply_row dev \<lparr>rgb_r = Num 0, rgb_g = Num 0, rgb_b = Num 45, rgb_a = Some (Num 1)\<rparr>
      [0.000, 0.300, 0.700] = Num 31"
    and "apply_row no_deviation
      \<lparr>rgb_r = Num 0, rgb_g = Num 0, rgb_b = Num 45, rgb_a = Some (Num 1)\<rparr>
      [0.000, 0.300, 0.700] = Num 32"
  using assms by (simp_all add: apply_row_def no_deviation_def floor_eq_iff)

end
